theory Spec2Isabelle
  imports
    Complex_Main
    "HOL-Library.Char_ord"
    "HOL-Library.List_Lexorder"
    "HOL-Library.Product_Lexorder"
    "HOL-Library.Multiset"
begin

section \<open>Values and text\<close>

text \<open>
  Every text cell comes from a file decoded as Latin-1, and the literals of the source lie
  in Latin-1 too, so a Python string is a list of code points below 256: a \<^typ>\<open>string\<close>,
  one \<^typ>\<open>char\<close> per code point. Python compares strings code point by code point, a
  proper prefix first, which is the lexicographic order on \<^typ>\<open>char list\<close>.

  A numeric cell is a float64. The model keeps the three special values of IEEE 754 and
  takes a finite value as the rational it denotes: the rounding of a finite result, overflow
  to an infinity and the sign of zero are not represented.
\<close>

datatype float64 = Fin rat | PInf | NInf | NaN

fun fneg :: "float64 \<Rightarrow> float64" where
  "fneg (Fin a) = Fin (- a)"
| "fneg PInf = NInf"
| "fneg NInf = PInf"
| "fneg NaN = NaN"

fun fadd :: "float64 \<Rightarrow> float64 \<Rightarrow> float64" where
  "fadd NaN _ = NaN"
| "fadd _ NaN = NaN"
| "fadd (Fin a) (Fin b) = Fin (a + b)"
| "fadd (Fin a) PInf = PInf"
| "fadd (Fin a) NInf = NInf"
| "fadd PInf NInf = NaN"
| "fadd NInf PInf = NaN"
| "fadd PInf _ = PInf"
| "fadd NInf _ = NInf"

definition fsub :: "float64 \<Rightarrow> float64 \<Rightarrow> float64" where
  "fsub a b = fadd a (fneg b)"

fun fmul :: "float64 \<Rightarrow> float64 \<Rightarrow> float64" where
  "fmul NaN _ = NaN"
| "fmul _ NaN = NaN"
| "fmul (Fin a) (Fin b) = Fin (a * b)"
| "fmul (Fin a) PInf = (if a = 0 then NaN else if 0 < a then PInf else NInf)"
| "fmul (Fin a) NInf = (if a = 0 then NaN else if 0 < a then NInf else PInf)"
| "fmul PInf (Fin b) = (if b = 0 then NaN else if 0 < b then PInf else NInf)"
| "fmul NInf (Fin b) = (if b = 0 then NaN else if 0 < b then NInf else PInf)"
| "fmul PInf PInf = PInf"
| "fmul PInf NInf = NInf"
| "fmul NInf PInf = NInf"
| "fmul NInf NInf = PInf"

fun fdiv :: "float64 \<Rightarrow> float64 \<Rightarrow> float64" where
  "fdiv NaN _ = NaN"
| "fdiv _ NaN = NaN"
| "fdiv (Fin a) (Fin b) =
     (if b = 0 then (if a = 0 then NaN else if 0 < a then PInf else NInf)
      else Fin (a / b))"
| "fdiv (Fin a) PInf = Fin 0"
| "fdiv (Fin a) NInf = Fin 0"
| "fdiv PInf (Fin b) = (if 0 \<le> b then PInf else NInf)"
| "fdiv NInf (Fin b) = (if 0 \<le> b then NInf else PInf)"
| "fdiv PInf _ = NaN"
| "fdiv NInf _ = NaN"

section \<open>Tables\<close>

text \<open>
  A long-format table is the list of its rows, in row order. The six columns are the ones
  the processor reads; a row of the file has more, which no function looks at.
\<close>

record filing =
  DT_REFER :: string
  DENOM_CIA :: string
  CD_CONTA :: string
  DS_CONTA :: string
  VL_CONTA :: float64
  ORDEM_EXERC :: string

datatype error =
    DuplicateEntries
  | AlreadyExists string
  | KeyError string

text \<open>
  A wide table is stored by column, as pandas does: \<open>index\<close> holds the
  \<open>(DT_REFER, DENOM_CIA)\<close> label of each row and \<open>data\<close> the named numeric
  columns, in column order, each as long as the index.
\<close>

record wide =
  index :: "(string \<times> string) list"
  data :: "(string \<times> float64 list) list"

definition ULTIMO :: string where
  "ULTIMO = CHR 0xDA # ''LTIMO''"

definition row_key :: "filing \<Rightarrow> string \<times> string" where
  "row_key r = (DT_REFER r, DENOM_CIA r)"

definition cell_of :: "(filing \<Rightarrow> string) \<Rightarrow> filing list \<Rightarrow> string \<times> string \<Rightarrow> string \<Rightarrow> float64" where
  "cell_of col df k c =
     (case map_of (map (\<lambda>r. ((row_key r, col r), VL_CONTA r)) df) (k, c) of
        None \<Rightarrow> NaN
      | Some v \<Rightarrow> v)"

text \<open>
  \<open>DataFrame.pivot(index=['DT_REFER', 'DENOM_CIA'], columns=col, values='VL_CONTA')\<close>:
  a ValueError when two rows share index and column label; otherwise one row per distinct
  index label and one column per distinct column label, both in ascending order, and NaN
  in every cell no row fills.
\<close>

definition pivot :: "(filing \<Rightarrow> string) \<Rightarrow> filing list \<Rightarrow> error + wide" where
  "pivot col df =
     (if \<not> distinct (map (\<lambda>r. (row_key r, col r)) df) then Inl DuplicateEntries
      else
        let idx = sort (remdups (map row_key df));
            cs = sort (remdups (map col df))
        in Inr \<lparr>index = idx, data = map (\<lambda>c. (c, map (\<lambda>k. cell_of col df k c) idx)) cs\<rparr>)"

text \<open>\<open>x[name]\<close> on a wide table: the column, or a KeyError.\<close>

definition getitem :: "wide \<Rightarrow> string \<Rightarrow> error + float64 list" where
  "getitem x name =
     (case map_of (data x) name of None \<Rightarrow> Inl (KeyError name) | Some s \<Rightarrow> Inr s)"

text \<open>\<open>x[name] = s\<close>: an existing column is replaced where it stands, a new one goes last.\<close>

fun set_col :: "string \<Rightarrow> float64 list \<Rightarrow> (string \<times> float64 list) list \<Rightarrow> (string \<times> float64 list) list" where
  "set_col name s [] = [(name, s)]"
| "set_col name s ((c, t) # cols) =
     (if c = name then (c, s) # cols else (c, t) # set_col name s cols)"

definition setitem :: "wide \<Rightarrow> string \<Rightarrow> float64 list \<Rightarrow> wide" where
  "setitem x name s = x\<lparr>data := set_col name s (data x)\<rparr>"

text \<open>
  \<open>reset_index()\<close> turns the two index levels into the leading columns \<open>DENOM_CIA\<close>
  and \<open>DT_REFER\<close>, inserted in that order, and fails when a column of that name is there
  already. The model leaves the two columns in \<open>index\<close>.
\<close>

definition reset_index :: "wide \<Rightarrow> error + wide" where
  "reset_index x =
     (if ''DENOM_CIA'' \<in> set (map fst (data x)) then Inl (AlreadyExists ''DENOM_CIA'')
      else if ''DT_REFER'' \<in> set (map fst (data x)) then Inl (AlreadyExists ''DT_REFER'')
      else Inr x)"

text \<open>Arithmetic on two columns of one table is elementwise.\<close>

definition col_add :: "float64 list \<Rightarrow> float64 list \<Rightarrow> float64 list" where
  "col_add s t = map2 fadd s t"

definition col_sub :: "float64 list \<Rightarrow> float64 list \<Rightarrow> float64 list" where
  "col_sub s t = map2 fsub s t"

definition col_div :: "float64 list \<Rightarrow> float64 list \<Rightarrow> float64 list" where
  "col_div s t = map2 fdiv s t"

definition col_scale :: "float64 list \<Rightarrow> rat \<Rightarrow> float64 list" where
  "col_scale s k = map (\<lambda>v. fmul v (Fin k)) s"


section \<open>Sequencing of fallible steps\<close>

text \<open>An exception leaves the function at once: the step after it does not run.\<close>

definition bind :: "error + 'a \<Rightarrow> ('a \<Rightarrow> error + 'b) \<Rightarrow> error + 'b" where
  "bind m f = (case m of Inl e \<Rightarrow> Inl e | Inr x \<Rightarrow> f x)"

text \<open>
  The body of a lambda handed to \<open>assign\<close>: column lookups joined by elementwise
  arithmetic. Python evaluates the left operand before the right one.
\<close>

datatype expr =
    Col string
  | Add expr expr
  | Sub expr expr
  | Div expr expr
  | Times expr rat

fun eval :: "wide \<Rightarrow> expr \<Rightarrow> error + float64 list" where
  "eval x (Col name) = getitem x name"
| "eval x (Add a b) = bind (eval x a) (\<lambda>s. bind (eval x b) (\<lambda>t. Inr (col_add s t)))"
| "eval x (Sub a b) = bind (eval x a) (\<lambda>s. bind (eval x b) (\<lambda>t. Inr (col_sub s t)))"
| "eval x (Div a b) = bind (eval x a) (\<lambda>s. bind (eval x b) (\<lambda>t. Inr (col_div s t)))"
| "eval x (Times a k) = bind (eval x a) (\<lambda>s. Inr (col_scale s k))"

text \<open>
  \<open>assign(name=lambda x: ..., ...)\<close>: the keywords in the order written, each lambda
  applied to the table as the keywords before it left it.
\<close>

fun assign :: "wide \<Rightarrow> (string \<times> expr) list \<Rightarrow> error + wide" where
  "assign x [] = Inr x"
| "assign x ((name, e) # kw) = bind (eval x e) (\<lambda>s. assign (setitem x name s) kw)"

text \<open>
  \<open>x[[names]]\<close> after \<open>reset_index\<close>: \<open>DT_REFER\<close> and \<open>DENOM_CIA\<close> are the two
  columns kept in \<open>index\<close>, every other name is looked up among the numeric columns.
\<close>

fun select_cols :: "wide \<Rightarrow> string list \<Rightarrow> error + (string \<times> float64 list) list" where
  "select_cols x [] = Inr []"
| "select_cols x (name # names) =
     (if name = ''DT_REFER'' \<or> name = ''DENOM_CIA'' then select_cols x names
      else bind (getitem x name) (\<lambda>s. bind (select_cols x names) (\<lambda>cols. Inr ((name, s) # cols))))"

definition select :: "wide \<Rightarrow> string list \<Rightarrow> error + wide" where
  "select x names = bind (select_cols x names) (\<lambda>cols. Inr (x\<lparr>data := cols\<rparr>))"

section \<open>FinancialProcessor\<close>

definition Patrimonio_Liquido_Consolidado :: string where
  "Patrimonio_Liquido_Consolidado =
     ''Patrim'' @ [CHR 0xF4] @ ''nio L'' @ [CHR 0xED] @ ''quido Consolidado''"

definition Ativo_Nao_Circulante :: string where
  "Ativo_Nao_Circulante = ''Ativo N'' @ [CHR 0xE3] @ ''o Circulante''"

definition Passivo_Nao_Circulante :: string where
  "Passivo_Nao_Circulante = ''Passivo N'' @ [CHR 0xE3] @ ''o Circulante''"

definition balance_sheet_accounts :: "string list" where
  "balance_sheet_accounts =
     [''Ativo Total'', ''Passivo Total'', Patrimonio_Liquido_Consolidado, ''Ativo Circulante'',
      Ativo_Nao_Circulante, ''Passivo Circulante'', Passivo_Nao_Circulante]"

text \<open>
  \<open>process_balance_sheet\<close>, from the two tables it loads and \<open>self.companies\<close>.
\<close>

definition process_balance_sheet :: "string list \<Rightarrow> filing list \<Rightarrow> filing list \<Rightarrow> error + wide" where
  "process_balance_sheet companies bpa bpp =
     (let bp = bpa @ bpp in
      bind (pivot DS_CONTA
              (filter (\<lambda>r. DS_CONTA r \<in> set balance_sheet_accounts \<and>
                           DENOM_CIA r \<in> set companies \<and>
                           ORDEM_EXERC r = ULTIMO) bp))
        (\<lambda>x. bind (assign x
                [(''passivo'', Sub (Col ''Passivo Total'') (Col Patrimonio_Liquido_Consolidado))])
           reset_index))"

definition income_statement_accounts :: "string list" where
  "income_statement_accounts =
     [''Receita de Venda de Bens e/ou Servi'' @ [CHR 0xE7] @ ''os'',
      ''Custo dos Bens e/ou Servi'' @ [CHR 0xE7] @ ''os Vendidos'',
      ''Lucro/Preju'' @ [CHR 0xED] @ ''zo Consolidado do Per'' @ [CHR 0xED] @ ''odo'']"

definition process_income_statement :: "string list \<Rightarrow> filing list \<Rightarrow> error + wide" where
  "process_income_statement companies dre =
     bind (pivot DS_CONTA
             (filter (\<lambda>r. DS_CONTA r \<in> set income_statement_accounts \<and>
                          DENOM_CIA r \<in> set companies \<and>
                          CD_CONTA r \<in> set [''3.11'', ''3.01'', ''3.02''] \<and>
                          ORDEM_EXERC r = ULTIMO) dre))
       reset_index"

definition cash_flow_accounts :: "string list" where
  "cash_flow_accounts =
     [''Caixa L'' @ [CHR 0xED] @ ''quido Atividades Operacionais'',
      ''Caixa L'' @ [CHR 0xED] @ ''quido Atividades de Investimento'',
      ''Caixa L'' @ [CHR 0xED] @ ''quido Atividades de Financiamento'',
      ''Aumento (Redu'' @ [CHR 0xE7, CHR 0xE3] @ ''o) de Caixa e Equivalentes'',
      ''Saldo Inicial de Caixa e Equivalentes'',
      ''Saldo Final de Caixa e Equivalentes'']"

definition process_cash_flow :: "string list \<Rightarrow> filing list \<Rightarrow> error + wide" where
  "process_cash_flow companies dfc =
     bind (pivot DS_CONTA
             (filter (\<lambda>r. DS_CONTA r \<in> set cash_flow_accounts \<and>
                          DENOM_CIA r \<in> set companies \<and>
                          ORDEM_EXERC r = ULTIMO) dfc))
       reset_index"

section \<open>FinancialIndicators\<close>

text \<open>
  \<open>load_data\<close> leaves in \<open>self._df_dfp\<close> the rows of both tables whose company is
  listed. The four calculations read the columns \<open>CD_CONTA\<close> and \<open>ORDEM_EXERC\<close> of
  that table, so the two tables are long-format tables here.
\<close>

definition load_data :: "filing list \<Rightarrow> filing list \<Rightarrow> string list \<Rightarrow> filing list" where
  "load_data bp dre companies = filter (\<lambda>r. DENOM_CIA r \<in> set companies) (bp @ dre)"

definition final_rows :: "string list \<Rightarrow> filing list \<Rightarrow> filing list" where
  "final_rows accounts df_dfp =
     filter (\<lambda>r. CD_CONTA r \<in> set accounts \<and> ORDEM_EXERC r = ULTIMO) df_dfp"

definition liquidity_assignments :: "(string \<times> expr) list" where
  "liquidity_assignments =
     [(''liquidez_imediata'',
         Div (Col ''Caixa e Equivalentes de Caixa'') (Col ''Passivo Circulante'')),
      (''liquidez_seca'',
         Div (Sub (Sub (Col ''Ativo Circulante'') (Col ''Estoques'')) (Col ''Despesas Antecipadas''))
             (Col ''Passivo Circulante'')),
      (''liquidez_corrente'',
         Div (Col ''Ativo Circulante'') (Col ''Passivo Circulante'')),
      (''liquidez_geral'',
         Div (Add (Col ''Ativo Circulante'') (Col Ativo_Nao_Circulante))
             (Add (Col ''Passivo Circulante'') (Col Passivo_Nao_Circulante)))]"

definition calculate_liquidity :: "filing list \<Rightarrow> error + wide" where
  "calculate_liquidity df_dfp =
     bind (pivot DS_CONTA
             (final_rows [''1.01.01'', ''2.01'', ''1.01'', ''1.01.04'', ''1.01.07'', ''1.02'', ''2.02'']
                df_dfp))
       (\<lambda>p. bind (reset_index p)
          (\<lambda>x. bind (assign x liquidity_assignments)
             (\<lambda>y. select y [''DT_REFER'', ''DENOM_CIA'', ''liquidez_imediata'', ''liquidez_seca'',
                             ''liquidez_corrente'', ''liquidez_geral''])))"

definition debt_assignments :: "(string \<times> expr) list" where
  "debt_assignments =
     [(''divida_pl'', Div (Add (Col ''2.01.04'') (Col ''2.02.01'')) (Col ''2.03'')),
      (''divida_ativos'', Div (Add (Col ''2.01.04'') (Col ''2.02.01'')) (Col ''1'')),
      (''divida_ebit'', Div (Add (Col ''2.01.04'') (Col ''2.02.01'')) (Col ''3.05'')),
      (''pl_ativos'', Div (Col ''2.03'') (Col ''1'')),
      (''passivos_ativos'', Div (Add (Col ''2.01'') (Col ''2.02'')) (Col ''1''))]"

definition calculate_debt :: "filing list \<Rightarrow> error + wide" where
  "calculate_debt df_dfp =
     bind (pivot CD_CONTA
             (final_rows [''1'', ''2.01'', ''2.02'', ''2.01.04'', ''2.02.01'', ''2.03'', ''3.05'']
                df_dfp))
       (\<lambda>p. bind (reset_index p)
          (\<lambda>x. bind (assign x debt_assignments)
             (\<lambda>y. select y [''DT_REFER'', ''DENOM_CIA'', ''divida_pl'', ''divida_ativos'',
                             ''divida_ebit'', ''pl_ativos'', ''passivos_ativos''])))"

definition efficiency_assignments :: "(string \<times> expr) list" where
  "efficiency_assignments =
     [(''margem_bruta'', Times (Div (Col ''3.03'') (Col ''3.01'')) 100),
      (''margem_liquida'', Times (Div (Col ''3.11'') (Col ''3.01'')) 100),
      (''margem_ebit'', Times (Div (Col ''3.05'') (Col ''3.01'')) 100)]"

definition calculate_efficiency :: "filing list \<Rightarrow> error + wide" where
  "calculate_efficiency df_dfp =
     bind (pivot CD_CONTA (final_rows [''3.01'', ''3.03'', ''3.05'', ''3.11''] df_dfp))
       (\<lambda>p. bind (reset_index p)
          (\<lambda>x. bind (assign x efficiency_assignments)
             (\<lambda>y. select y [''DT_REFER'', ''DENOM_CIA'', ''margem_bruta'', ''margem_liquida'',
                             ''margem_ebit''])))"

definition profitability_assignments :: "(string \<times> expr) list" where
  "profitability_assignments =
     [(''roic'', Times (Div (Sub (Col ''3.05'') (Col ''3.08'')) (Col ''2'')) 100),
      (''roe'', Times (Div (Col ''3.11'') (Col ''2.03'')) 100),
      (''roa'', Times (Div (Col ''3.11'') (Col ''1'')) 100)]"

definition calculate_profitability :: "filing list \<Rightarrow> error + wide" where
  "calculate_profitability df_dfp =
     bind (pivot CD_CONTA
             (final_rows [''1'', ''2'', ''2.03'', ''3.05'', ''3.08'', ''3.11''] df_dfp))
       (\<lambda>p. bind (reset_index p)
          (\<lambda>x. bind (assign x profitability_assignments)
             (\<lambda>y. select y [''DT_REFER'', ''DENOM_CIA'', ''roic'', ''roe'', ''roa''])))"

section \<open>CVMDataCollector\<close>

text \<open>
  A row of the company registry, with the four columns the filter reads. Every row names
  its company; the other three cells may be empty in the file, which pandas reads as NaN:
  NaN equals no string and is a member of no list of strings.
\<close>

record company =
  DENOM_SOCIAL :: string
  SIT :: "string option"
  TP_MERC :: "string option"
  SETOR_ATIV :: "string option"

definition excluded_sectors :: "string list" where
  "excluded_sectors =
     [''Bancos'',
      ''Intermedia'' @ [CHR 0xE7, CHR 0xE3] @ ''o Financeira'',
      ''Seguradoras e Corretoras'']"

definition isin :: "string option \<Rightarrow> string list \<Rightarrow> bool" where
  "isin v xs = (case v of None \<Rightarrow> False | Some s \<Rightarrow> s \<in> set xs)"

text \<open>
  \<open>download_company_info\<close>, from the registry table it has read. Rows of one name stay
  in the order of the file here; pandas sorts with an unstable quicksort and may order them
  otherwise.
\<close>

definition download_company_info :: "company list \<Rightarrow> company list" where
  "download_company_info info =
     sort_key DENOM_SOCIAL
       (filter (\<lambda>c. SIT c = Some ''ATIVO'' \<and> TP_MERC c = Some ''BOLSA'' \<and>
                    \<not> isin (SETOR_ATIV c) excluded_sectors) info)"

text \<open>
  \<open>run\<close> writes the \<open>DENOM_SOCIAL\<close> column of that table to \<open>companies.csv\<close>, and
  \<open>load_companies\<close> returns the first column of the file as a list.
\<close>

definition load_companies :: "company list \<Rightarrow> string list" where
  "load_companies info = map DENOM_SOCIAL (download_company_info info)"

text \<open>
  The output directory, as far as \<open>concatenate_statements\<close> looks at it: the table in
  the file of a statement type and a year, or \<open>None\<close> when there is no such file. The
  file name \<open>dfp_cia_aberta_{stmt_type}_{year}.csv\<close> determines both.
\<close>

type_synonym 'row directory = "string \<times> int \<Rightarrow> 'row list option"

definition frames_of :: "'row directory \<Rightarrow> int \<Rightarrow> int \<Rightarrow> string \<Rightarrow> 'row list list" where
  "frames_of dir start_year end_year stmt_type =
     concat (map (\<lambda>year. case dir (stmt_type, year) of None \<Rightarrow> [] | Some df \<Rightarrow> [df])
               [start_year..end_year])"

fun concatenate_loop ::
  "'row directory \<Rightarrow> int \<Rightarrow> int \<Rightarrow> string list \<Rightarrow> (string \<rightharpoonup> 'row list) \<Rightarrow> (string \<rightharpoonup> 'row list)" where
  "concatenate_loop dir start_year end_year [] result = result"
| "concatenate_loop dir start_year end_year (stmt_type # rest) result =
     (let frames = frames_of dir start_year end_year stmt_type
      in concatenate_loop dir start_year end_year rest
           (if frames \<noteq> [] then result(stmt_type \<mapsto> concat frames) else result))"

definition concatenate_statements ::
  "'row directory \<Rightarrow> int \<Rightarrow> int \<Rightarrow> string list \<Rightarrow> (string \<rightharpoonup> 'row list)" where
  "concatenate_statements dir start_year end_year statement_types =
     concatenate_loop dir start_year end_year statement_types Map.empty"

section \<open>Notions used to state the properties\<close>

text \<open>The column names an expression looks up, in the order it looks them up.\<close>

fun refs :: "expr \<Rightarrow> string list" where
  "refs (Col name) = [name]"
| "refs (Add a b) = refs a @ refs b"
| "refs (Sub a b) = refs a @ refs b"
| "refs (Div a b) = refs a @ refs b"
| "refs (Times a k) = refs a"

text \<open>The value of an expression on one row, \<open>v name\<close> being the row's cell in column \<open>name\<close>.\<close>

fun row_val :: "(string \<Rightarrow> float64) \<Rightarrow> expr \<Rightarrow> float64" where
  "row_val v (Col name) = v name"
| "row_val v (Add a b) = fadd (row_val v a) (row_val v b)"
| "row_val v (Sub a b) = fsub (row_val v a) (row_val v b)"
| "row_val v (Div a b) = fdiv (row_val v a) (row_val v b)"
| "row_val v (Times a k) = fmul (row_val v a) (Fin k)"

text \<open>The company names in the rows of an output table; a run that raised has no rows.\<close>

definition companies_of :: "error + wide \<Rightarrow> string set" where
  "companies_of r = (case r of Inl e \<Rightarrow> {} | Inr w \<Rightarrow> snd ` set (index w))"

text \<open>The rows of the balance sheet that reach the pivot.\<close>

abbreviation balance_sheet_rows :: "string list \<Rightarrow> filing list \<Rightarrow> filing list" where
  "balance_sheet_rows companies bp \<equiv>
     filter (\<lambda>r. DS_CONTA r \<in> set balance_sheet_accounts \<and> DENOM_CIA r \<in> set companies \<and>
                  ORDEM_EXERC r = ULTIMO) bp"

text \<open>The rows that reach the pivot of the other two statements and of the four ratio families.\<close>

abbreviation income_statement_rows :: "string list \<Rightarrow> filing list \<Rightarrow> filing list" where
  "income_statement_rows companies dre \<equiv>
     filter (\<lambda>r. DS_CONTA r \<in> set income_statement_accounts \<and> DENOM_CIA r \<in> set companies \<and>
                  CD_CONTA r \<in> set [''3.11'', ''3.01'', ''3.02''] \<and> ORDEM_EXERC r = ULTIMO) dre"

abbreviation cash_flow_rows :: "string list \<Rightarrow> filing list \<Rightarrow> filing list" where
  "cash_flow_rows companies dfc \<equiv>
     filter (\<lambda>r. DS_CONTA r \<in> set cash_flow_accounts \<and> DENOM_CIA r \<in> set companies \<and>
                  ORDEM_EXERC r = ULTIMO) dfc"



abbreviation efficiency_rows :: "filing list \<Rightarrow> filing list" where
  "efficiency_rows df_dfp \<equiv> final_rows [''3.01'', ''3.03'', ''3.05'', ''3.11''] df_dfp"



section \<open>Example inputs\<close>

text \<open>A row of a filing whose \<open>ORDEM_EXERC\<close> marks it as the final version.\<close>

definition filing_row :: "string \<Rightarrow> string \<Rightarrow> string \<Rightarrow> string \<Rightarrow> float64 \<Rightarrow> filing" where
  "filing_row dt cia cd ds vl =
     \<lparr>DT_REFER = dt, DENOM_CIA = cia, CD_CONTA = cd, DS_CONTA = ds, VL_CONTA = vl,
      ORDEM_EXERC = ULTIMO\<rparr>"

definition acme_balance :: "filing list" where
  "acme_balance =
     [filing_row ''2023-12-31'' ''ACME S.A.'' ''2'' ''Passivo Total'' (Fin 300),
      filing_row ''2023-12-31'' ''ACME S.A.'' ''2.03'' Patrimonio_Liquido_Consolidado (Fin 100),
      filing_row ''2022-12-31'' ''ACME S.A.'' ''2'' ''Passivo Total'' (Fin 250)]"

definition acme_balance_wide :: wide where
  "acme_balance_wide =
     \<lparr>index = [(''2022-12-31'', ''ACME S.A.''), (''2023-12-31'', ''ACME S.A.'')],
      data = [(''Passivo Total'', [Fin 250, Fin 300]),
              (Patrimonio_Liquido_Consolidado, [NaN, Fin 100]),
              (''passivo'', [NaN, Fin 200])]\<rparr>"

definition acme_income :: "filing list" where
  "acme_income =
     [filing_row ''2023-12-31'' ''ACME S.A.'' ''3.11'' (income_statement_accounts ! 2) (Fin 40),
      filing_row ''2023-12-31'' ''ACME S.A.'' ''3.01'' (income_statement_accounts ! 0) (Fin 900),
      filing_row ''2022-12-31'' ''ACME S.A.'' ''3.01'' (income_statement_accounts ! 0) (Fin 800)]"

definition acme_income_wide :: wide where
  "acme_income_wide =
     \<lparr>index = [(''2022-12-31'', ''ACME S.A.''), (''2023-12-31'', ''ACME S.A.'')],
      data = [(income_statement_accounts ! 2, [NaN, Fin 40]),
              (income_statement_accounts ! 0, [Fin 800, Fin 900])]\<rparr>"

definition acme_duplicate :: "filing list" where
  "acme_duplicate =
     [filing_row ''2023-12-31'' ''ACME S.A.'' ''2'' ''Passivo Total'' (Fin 300),
      filing_row ''2023-12-31'' ''ACME S.A.'' ''2.03'' Patrimonio_Liquido_Consolidado (Fin 100),
      filing_row ''2023-12-31'' ''ACME S.A.'' ''2'' ''Passivo Total'' (Fin 310)]"



text \<open>
  The two rows of the round-trip scenario, with the values of current assets and current
  liabilities left open, and the rows of the five other accounts of the liquidity family.
\<close>

definition acme_current :: "float64 \<Rightarrow> float64 \<Rightarrow> filing list" where
  "acme_current ac pc =
     [filing_row ''2023-12-31'' ''ACME S.A.'' ''1.01'' ''Ativo Circulante'' ac,
      filing_row ''2023-12-31'' ''ACME S.A.'' ''2.01'' ''Passivo Circulante'' pc]"

definition acme_other_rows ::
  "float64 \<Rightarrow> float64 \<Rightarrow> float64 \<Rightarrow> float64 \<Rightarrow> float64 \<Rightarrow> filing list" where
  "acme_other_rows cash stock prepaid anc pnc =
     [filing_row ''2023-12-31'' ''ACME S.A.'' ''1.01.01'' ''Caixa e Equivalentes de Caixa'' cash,
      filing_row ''2023-12-31'' ''ACME S.A.'' ''1.01.04'' ''Estoques'' stock,
      filing_row ''2023-12-31'' ''ACME S.A.'' ''1.01.07'' ''Despesas Antecipadas'' prepaid,
      filing_row ''2023-12-31'' ''ACME S.A.'' ''1.02'' Ativo_Nao_Circulante anc,
      filing_row ''2023-12-31'' ''ACME S.A.'' ''2.02'' Passivo_Nao_Circulante pnc]"




text \<open>A registry in which two rows carry one name, a bank and a company of another sector.\<close>

definition acme_bank :: company where
  "acme_bank =
     \<lparr>DENOM_SOCIAL = ''ACME S.A.'', SIT = Some ''ATIVO'', TP_MERC = Some ''BOLSA'',
      SETOR_ATIV = Some ''Bancos''\<rparr>"

definition acme_farm :: company where
  "acme_farm =
     \<lparr>DENOM_SOCIAL = ''ACME S.A.'', SIT = Some ''ATIVO'', TP_MERC = Some ''BOLSA'',
      SETOR_ATIV = Some ''Agricultura''\<rparr>"

text \<open>An empty output directory, and one that holds the files of 2016 to 2020 of one statement.\<close>

definition no_files :: "int directory" where
  "no_files = (\<lambda>file. None)"

definition files_2016_2020 :: "int directory" where
  "files_2016_2020 =
     (\<lambda>(stmt_type, year).
        if stmt_type = ''BPA_con'' \<and> 2016 \<le> year \<and> year \<le> 2020 then Some [year, year] else None)"

section \<open>Facts about the table operations\<close>

lemma bind_Inr_iff: "bind m f = Inr y \<longleftrightarrow> (\<exists>x. m = Inr x \<and> f x = Inr y)"
  by (cases m) (simp_all add: bind_def)

lemma bind_Inl [simp]: "bind (Inl e) f = Inl e"
  by (simp add: bind_def)

lemma bind_Inr [simp]: "bind (Inr x) f = f x"
  by (simp add: bind_def)

lemma map_of_set_col: "map_of (set_col name s cols) = (map_of cols)(name \<mapsto> s)"
  by (induction cols) (auto simp: fun_eq_iff)

lemma fst_set_col: "fst ` set (set_col name s cols) = insert name (fst ` set cols)"
  by (simp add: dom_map_of_conv_image_fst [symmetric] map_of_set_col)


lemma index_setitem [simp]: "index (setitem x name s) = index x"
  by (simp add: setitem_def)


lemma eval_Inl:
  "eval x e = Inl err \<Longrightarrow> \<exists>m \<in> set (refs e). err = KeyError m \<and> map_of (data x) m = None"
proof (induction e arbitrary: err)
  case (Col name)
  then show ?case by (auto simp: getitem_def split: option.splits)
next
  case (Add a b)
  then show ?case by (cases "eval x a"; cases "eval x b") auto
next
  case (Sub a b)
  then show ?case by (cases "eval x a"; cases "eval x b") auto
next
  case (Div a b)
  then show ?case by (cases "eval x a"; cases "eval x b") auto
next
  case (Times a k)
  then show ?case by (cases "eval x a") auto
qed

lemma eval_missing:
  "m \<in> set (refs e) \<Longrightarrow> map_of (data x) m = None \<Longrightarrow> \<exists>m'. eval x e = Inl (KeyError m')"
proof (induction e)
  case (Col name)
  then show ?case by (simp add: getitem_def)
next
  case (Add a b)
  then show ?case by (cases "eval x a"; cases "eval x b") (auto dest: eval_Inl)
next
  case (Sub a b)
  then show ?case by (cases "eval x a"; cases "eval x b") (auto dest: eval_Inl)
next
  case (Div a b)
  then show ?case by (cases "eval x a"; cases "eval x b") (auto dest: eval_Inl)
next
  case (Times a k)
  then show ?case by (cases "eval x a") (auto dest: eval_Inl)
qed


lemma pivot_Inr:
  "pivot col df = Inr p \<Longrightarrow>
     distinct (map (\<lambda>r. (row_key r, col r)) df) \<and>
     index p = sort (remdups (map row_key df)) \<and>
     data p = map (\<lambda>c. (c, map (\<lambda>k. cell_of col df k c) (index p))) (sort (remdups (map col df)))"
  by (auto simp: pivot_def Let_def split: if_splits)

lemma pivot_Inl: "pivot col df = Inl e \<Longrightarrow> e = DuplicateEntries"
  by (auto simp: pivot_def Let_def split: if_splits)

lemma pivot_duplicate:
  "\<not> distinct (map (\<lambda>r. (row_key r, col r)) df) \<Longrightarrow> pivot col df = Inl DuplicateEntries"
  by (simp add: pivot_def)

lemma map_of_pivot:
  assumes "pivot col df = Inr p"
  shows "map_of (data p) c =
           (if c \<in> col ` set df then Some (map (\<lambda>k. cell_of col df k c) (index p)) else None)"
proof -
  have "map_of (map (\<lambda>c. (c, f c)) cs) c = (if c \<in> set cs then Some (f c) else None)"
    for f :: "string \<Rightarrow> float64 list" and cs
    by (induction cs) auto
  then show ?thesis using pivot_Inr [OF assms] by simp
qed


lemma pivot_index_set: "pivot col df = Inr p \<Longrightarrow> set (index p) = row_key ` set df"
  by (drule pivot_Inr) simp

lemma pivot_index_sorted: "pivot col df = Inr p \<Longrightarrow> sorted (index p) \<and> distinct (index p)"
  by (drule pivot_Inr) simp

lemma map2_same: "map2 f (map g xs) (map h xs) = map (\<lambda>x. f (g x) (h x)) xs"
  by (induction xs) auto

lemma eval_pivot:
  assumes "pivot col df = Inr p"
  shows "set (refs e) \<subseteq> col ` set df \<Longrightarrow>
         eval p e = Inr (map (\<lambda>k. row_val (cell_of col df k) e) (index p))"
  by (induction e)
     (auto simp: getitem_def map_of_pivot [OF assms] col_add_def col_sub_def col_div_def
        col_scale_def map2_same)

lemma pivot_mset:
  assumes "mset xs = mset ys"
  shows "pivot col xs = pivot col ys"
proof -
  let ?k = "\<lambda>r. (row_key r, col r)"
  have m: "mset (map f xs) = mset (map f ys)" for f :: "filing \<Rightarrow> 'b"
    using assms by (metis mset_map)
  have s: "set xs = set ys" using assms by (rule mset_eq_setD)
  have d: "distinct (map ?k xs) = distinct (map ?k ys)"
    using m [of ?k] by (rule mset_eq_imp_distinct_iff)
  have i: "sort (remdups (map row_key xs)) = sort (remdups (map row_key ys))"
    using s by (simp add: sorted_list_of_set_sort_remdups [symmetric])
  have c: "sort (remdups (map col xs)) = sort (remdups (map col ys))"
    using s by (simp add: sorted_list_of_set_sort_remdups [symmetric])
  have v: "cell_of col xs = cell_of col ys" if "distinct (map ?k xs)"
  proof -
    let ?a = "\<lambda>zs. map (\<lambda>r. (?k r, VL_CONTA r)) zs"
    have "distinct (map fst (?a xs))" using that by (simp add: comp_def)
    moreover have "distinct (map fst (?a ys))" using that d by (simp add: comp_def)
    moreover have "set (?a xs) = set (?a ys)" using s by simp
    ultimately have "map_of (?a xs) = map_of (?a ys)" by (simp add: map_of_inject_set)
    then show ?thesis by (simp add: cell_of_def fun_eq_iff)
  qed
  show ?thesis
  proof (cases "distinct (map ?k xs)")
    case True
    then show ?thesis using d i c v by (simp add: pivot_def)
  next
    case False
    then show ?thesis using d by (simp add: pivot_def)
  qed
qed

lemma reset_index_Inr: "reset_index x = Inr y \<Longrightarrow> y = x"
  by (auto simp: reset_index_def split: if_splits)

lemma eval_pivot_Inr:
  assumes "pivot col df = Inr p" and "eval p e = Inr s"
  shows "s = map (\<lambda>k. row_val (cell_of col df k) e) (index p) \<and> set (refs e) \<subseteq> col ` set df"
proof -
  have "m \<in> col ` set df" if "m \<in> set (refs e)" for m
  proof (rule ccontr)
    assume "m \<notin> col ` set df"
    then have "map_of (data p) m = None" by (simp add: map_of_pivot [OF assms(1)])
    from eval_missing [OF that this] assms(2) show False by auto
  qed
  then have sub: "set (refs e) \<subseteq> col ` set df" by blast
  from eval_pivot [OF assms(1) sub] assms(2) show ?thesis using sub by simp
qed

lemma passivo_neq [simp]:
  "''passivo'' \<noteq> Patrimonio_Liquido_Consolidado" "Patrimonio_Liquido_Consolidado \<noteq> ''passivo''"
  by (simp_all add: Patrimonio_Liquido_Consolidado_def)

lemma process_balance_sheet_Inr:
  assumes "process_balance_sheet companies bpa bpp = Inr w"
  shows "\<exists>p. pivot DS_CONTA (balance_sheet_rows companies (bpa @ bpp)) = Inr p \<and>
             w = setitem p ''passivo''
                   (map (\<lambda>k. fsub (cell_of DS_CONTA (balance_sheet_rows companies (bpa @ bpp)) k ''Passivo Total'')
                                   (cell_of DS_CONTA (balance_sheet_rows companies (bpa @ bpp)) k Patrimonio_Liquido_Consolidado))
                      (index p)) \<and>
             ''Passivo Total'' \<in> DS_CONTA ` set (balance_sheet_rows companies (bpa @ bpp)) \<and>
             Patrimonio_Liquido_Consolidado \<in> DS_CONTA ` set (balance_sheet_rows companies (bpa @ bpp))"
proof -
  let ?rows = "balance_sheet_rows companies (bpa @ bpp)"
  let ?e = "Sub (Col ''Passivo Total'') (Col Patrimonio_Liquido_Consolidado)"
  from assms obtain p y where
    p: "pivot DS_CONTA ?rows = Inr p" and
    y: "assign p [(''passivo'', ?e)] = Inr y" and
    w: "reset_index y = Inr w"
    unfolding process_balance_sheet_def Let_def bind_Inr_iff by blast
  from y obtain s where s: "eval p ?e = Inr s" and y': "y = setitem p ''passivo'' s"
    unfolding assign.simps bind_Inr_iff by auto
  from eval_pivot_Inr [OF p s] reset_index_Inr [OF w] y' p show ?thesis by auto
qed

section \<open>The balance sheet\<close>

lemmas example_defs = filing_row_def acme_balance_def acme_balance_wide_def ULTIMO_def Patrimonio_Liquido_Consolidado_def
  Ativo_Nao_Circulante_def Passivo_Nao_Circulante_def balance_sheet_accounts_def

lemma acme_balance_sheet:
  "process_balance_sheet [''ACME S.A.''] [] acme_balance = Inr acme_balance_wide"
  by (simp add: process_balance_sheet_def example_defs pivot_def row_key_def cell_of_def
       reset_index_def getitem_def setitem_def col_sub_def fsub_def)



section \<open>The statement reshapers\<close>

lemma acme_income_statement:
  "process_income_statement [''ACME S.A.''] acme_income = Inr acme_income_wide"
  by (simp add: process_income_statement_def acme_income_def acme_income_wide_def filing_row_def
        ULTIMO_def income_statement_accounts_def pivot_def row_key_def cell_of_def reset_index_def)

lemma assign_index: "assign x kw = Inr y \<Longrightarrow> index y = index x"
proof (induction kw arbitrary: x)
  case Nil
  then show ?case by simp
next
  case (Cons a kw)
  obtain name e where a: "a = (name, e)" by (cases a)
  from Cons.prems obtain s where "assign (setitem x name s) kw = Inr y"
    unfolding a assign.simps bind_Inr_iff by blast
  from Cons.IH [OF this] show ?case by simp
qed

lemma select_index: "select y names = Inr w \<Longrightarrow> index w = index y"
  by (auto simp: select_def bind_Inr_iff)

lemma process_income_statement_Inr:
  "process_income_statement companies dre = Inr w \<Longrightarrow>
     pivot DS_CONTA (income_statement_rows companies dre) = Inr w"
  by (auto simp: process_income_statement_def bind_Inr_iff dest: reset_index_Inr)

lemma process_cash_flow_Inr:
  "process_cash_flow companies dfc = Inr w \<Longrightarrow>
     pivot DS_CONTA (cash_flow_rows companies dfc) = Inr w"
  by (auto simp: process_cash_flow_def bind_Inr_iff dest: reset_index_Inr)

lemma process_balance_sheet_index:
  assumes "process_balance_sheet companies bpa bpp = Inr w"
  shows "index w = sort (remdups (map row_key (balance_sheet_rows companies (bpa @ bpp))))"
proof -
  from process_balance_sheet_Inr [OF assms] obtain p s where
    p: "pivot DS_CONTA (balance_sheet_rows companies (bpa @ bpp)) = Inr p" and
    w: "w = setitem p ''passivo'' s"
    by blast
  from pivot_Inr [OF p] w show ?thesis by simp
qed

lemma duplicate_after_filter:
  assumes "i < j" "j < length xs" "P (xs ! i)" "P (xs ! j)" "f (xs ! i) = f (xs ! j)"
  shows "\<not> distinct (map f (filter P xs))"
proof -
  have xs: "xs = take j xs @ xs ! j # drop (Suc j) xs"
    using assms(2) by (simp add: id_take_nth_drop)
  have "xs ! i \<in> set (take j xs)"
    using assms(1,2) by (auto simp: in_set_conv_nth intro!: exI [of _ i])
  then have "xs ! i \<in> set (filter P (take j xs))"
    using assms(3) by simp
  then have "f (xs ! i) \<in> f ` set (filter P (take j xs))"
    by (rule imageI)
  then have "f (xs ! j) \<in> f ` set (filter P (take j xs))"
    using assms(5) by simp
  moreover have "filter P xs = filter P (take j xs) @ xs ! j # filter P (drop (Suc j) xs)"
    using assms(4) by (subst xs) simp
  ultimately show ?thesis by simp
qed

text \<open>
  C4. Two rows of the balance-sheet input, at different positions, that both pass the
  filters of \<open>process_balance_sheet\<close> and agree on period, company and account
  description make the pivot raise: the run ends with the duplicate-entries ValueError
  and returns no table. In every table the run does return, no \<open>(period, company)\<close>
  label occurs twice, and the labels are exactly those of the rows that passed the filters.
\<close>

theorem duplicate_final_rows_fail:
  "(i < j \<and> j < length (bpa @ bpp) \<and>
    DS_CONTA ((bpa @ bpp) ! i) \<in> set balance_sheet_accounts \<and>
    DENOM_CIA ((bpa @ bpp) ! i) \<in> set companies \<and>
    ORDEM_EXERC ((bpa @ bpp) ! i) = ULTIMO \<and> ORDEM_EXERC ((bpa @ bpp) ! j) = ULTIMO \<and>
    DT_REFER ((bpa @ bpp) ! j) = DT_REFER ((bpa @ bpp) ! i) \<and>
    DENOM_CIA ((bpa @ bpp) ! j) = DENOM_CIA ((bpa @ bpp) ! i) \<and>
    DS_CONTA ((bpa @ bpp) ! j) = DS_CONTA ((bpa @ bpp) ! i)
    \<longrightarrow> process_balance_sheet companies bpa bpp = Inl DuplicateEntries) \<and>
   (process_balance_sheet companies bpa bpp = Inr w
    \<longrightarrow> distinct (index w) \<and>
        set (index w) = row_key ` set (balance_sheet_rows companies (bpa @ bpp)))"
proof (intro conjI impI)
  let ?P = "\<lambda>r. DS_CONTA r \<in> set balance_sheet_accounts \<and> DENOM_CIA r \<in> set companies \<and>
                 ORDEM_EXERC r = ULTIMO"
  let ?k = "\<lambda>r. (row_key r, DS_CONTA r)"
  assume a: "i < j \<and> j < length (bpa @ bpp) \<and>
    DS_CONTA ((bpa @ bpp) ! i) \<in> set balance_sheet_accounts \<and>
    DENOM_CIA ((bpa @ bpp) ! i) \<in> set companies \<and>
    ORDEM_EXERC ((bpa @ bpp) ! i) = ULTIMO \<and> ORDEM_EXERC ((bpa @ bpp) ! j) = ULTIMO \<and>
    DT_REFER ((bpa @ bpp) ! j) = DT_REFER ((bpa @ bpp) ! i) \<and>
    DENOM_CIA ((bpa @ bpp) ! j) = DENOM_CIA ((bpa @ bpp) ! i) \<and>
    DS_CONTA ((bpa @ bpp) ! j) = DS_CONTA ((bpa @ bpp) ! i)"
  have "\<not> distinct (map ?k (filter ?P (bpa @ bpp)))"
  proof (rule duplicate_after_filter [of i j])
    show "i < j" "j < length (bpa @ bpp)" using a by simp_all
    show "?P ((bpa @ bpp) ! i)" using a by simp
    show "?P ((bpa @ bpp) ! j)" using a by simp
    show "?k ((bpa @ bpp) ! i) = ?k ((bpa @ bpp) ! j)" using a by (simp add: row_key_def)
  qed
  then have "pivot DS_CONTA (filter ?P (bpa @ bpp)) = Inl DuplicateEntries"
    by (rule pivot_duplicate)
  then show "process_balance_sheet companies bpa bpp = Inl DuplicateEntries"
    by (simp add: process_balance_sheet_def)
next
  assume w: "process_balance_sheet companies bpa bpp = Inr w"
  show "distinct (index w)"
    by (simp add: process_balance_sheet_index [OF w])
  show "set (index w) = row_key ` set (balance_sheet_rows companies (bpa @ bpp))"
    by (simp add: process_balance_sheet_index [OF w] image_Un)
qed

theorem duplicate_final_rows_fail_witness:
  "process_balance_sheet [''ACME S.A.''] [] acme_duplicate = Inl DuplicateEntries \<and>
   process_balance_sheet [''ACME S.A.''] [] acme_balance = Inr acme_balance_wide \<and>
   distinct (index acme_balance_wide) \<and>
   set (index acme_balance_wide) = row_key ` set (balance_sheet_rows [''ACME S.A.''] ([] @ acme_balance))"
  using duplicate_final_rows_fail [of 0 2 "[]" acme_duplicate "[''ACME S.A.'']" acme_balance_wide]
        duplicate_final_rows_fail [of 0 0 "[]" acme_balance "[''ACME S.A.'']" acme_balance_wide]
        acme_balance_sheet
  by (simp add: acme_duplicate_def filing_row_def balance_sheet_accounts_def)

text \<open>
  C10. \<open>process_balance_sheet\<close> and \<open>process_income_statement\<close> depend on the rows
  of their input only as a multiset: a permutation of the rows gives the same result, the
  same table or the same error. The rows of a returned table are in strictly ascending
  lexicographic order of \<open>(DT_REFER, DENOM_CIA)\<close>.
\<close>

theorem reshape_ignores_row_order:
  assumes "mset (bpa @ bpp) = mset (bpa' @ bpp')" and "mset dre = mset dre'"
  shows "process_balance_sheet companies bpa bpp = process_balance_sheet companies bpa' bpp' \<and>
         process_income_statement companies dre = process_income_statement companies dre' \<and>
         (\<forall>w. process_balance_sheet companies bpa bpp = Inr w \<longrightarrow>
              sorted (index w) \<and> distinct (index w)) \<and>
         (\<forall>w. process_income_statement companies dre = Inr w \<longrightarrow>
              sorted (index w) \<and> distinct (index w))"
proof (intro conjI allI impI)
  have "mset (balance_sheet_rows companies (bpa @ bpp)) =
        mset (balance_sheet_rows companies (bpa' @ bpp'))"
    using assms(1) by (simp only: mset_filter)
  then have "pivot DS_CONTA (balance_sheet_rows companies (bpa @ bpp)) =
             pivot DS_CONTA (balance_sheet_rows companies (bpa' @ bpp'))"
    by (rule pivot_mset)
  then show "process_balance_sheet companies bpa bpp = process_balance_sheet companies bpa' bpp'"
    by (simp add: process_balance_sheet_def)
next
  have "mset (income_statement_rows companies dre) = mset (income_statement_rows companies dre')"
    using assms(2) by (simp only: mset_filter)
  then have "pivot DS_CONTA (income_statement_rows companies dre) =
             pivot DS_CONTA (income_statement_rows companies dre')"
    by (rule pivot_mset)
  then show "process_income_statement companies dre = process_income_statement companies dre'"
    by (simp add: process_income_statement_def)
next
  fix w assume "process_balance_sheet companies bpa bpp = Inr w"
  from process_balance_sheet_index [OF this]
  show "sorted (index w)" "distinct (index w)" by simp_all
next
  fix w assume "process_income_statement companies dre = Inr w"
  from pivot_index_sorted [OF process_income_statement_Inr [OF this]]
  show "sorted (index w)" "distinct (index w)" by simp_all
qed

theorem reshape_ignores_row_order_witness:
  "mset ([] @ acme_balance) = mset (rev acme_balance @ []) \<and>
   mset acme_income = mset (rev acme_income) \<and>
   process_balance_sheet [''ACME S.A.''] (rev acme_balance) [] = Inr acme_balance_wide \<and>
   process_income_statement [''ACME S.A.''] (rev acme_income) = Inr acme_income_wide \<and>
   sorted (index acme_balance_wide) \<and> distinct (index acme_balance_wide) \<and>
   sorted (index acme_income_wide) \<and> distinct (index acme_income_wide)"
proof -
  have b: "mset ([] @ acme_balance) = mset (rev acme_balance @ [])" by simp
  have i: "mset acme_income = mset (rev acme_income)" by simp
  from reshape_ignores_row_order [OF b i, of "[''ACME S.A.'']"] acme_balance_sheet acme_income_statement b i
  show ?thesis by simp
qed

section \<open>The ratio families\<close>




lemma index_fold [simp]:
  "index (fold (\<lambda>(name, e) y. setitem y name (val e)) kw x) = index x"
  by (induction kw arbitrary: x) auto







lemmas ratio_example_defs = filing_row_def ULTIMO_def final_rows_def load_data_def pivot_def
  row_key_def cell_of_def


subsection \<open>Liquidity\<close>

lemmas liquidity_example_defs = calculate_liquidity_def acme_current_def acme_other_rows_def
  ratio_example_defs reset_index_def liquidity_assignments_def getitem_def setitem_def select_def
  Ativo_Nao_Circulante_def Passivo_Nao_Circulante_def col_add_def col_sub_def col_div_def

text \<open>
  C1, as stated, fails: on the two rows of the scenario alone the first assignment looks up
  the column \<open>Caixa e Equivalentes de Caixa\<close>, which the pivot did not produce, and the
  run ends with a KeyError.
\<close>

theorem two_rows_raise_key_error:
  "calculate_liquidity (load_data (acme_current (Fin 100) (Fin 50)) [] [''ACME S.A.'']) =
     Inl (KeyError ''Caixa e Equivalentes de Caixa'')"
  by (simp add: liquidity_example_defs)

text \<open>
  C1, amended. When the input holds, besides the two rows of the scenario, a final row of
  the same period and company for each of the five other accounts of the liquidity family,
  whatever their values, \<open>calculate_liquidity\<close> returns the single row
  \<open>(2023-12-31, ACME S.A.)\<close> with \<open>liquidez_corrente = 2\<close>.
\<close>

theorem acme_current_ratio_is_two:
  "calculate_liquidity
     (load_data (acme_current (Fin 100) (Fin 50) @ acme_other_rows cash stock prepaid anc pnc) []
        [''ACME S.A.'']) =
   Inr \<lparr>index = [(''2023-12-31'', ''ACME S.A.'')],
        data = [(''liquidez_imediata'', [fdiv cash (Fin 50)]),
                (''liquidez_seca'', [fdiv (fsub (fsub (Fin 100) stock) prepaid) (Fin 50)]),
                (''liquidez_corrente'', [Fin 2]),
                (''liquidez_geral'', [fdiv (fadd (Fin 100) anc) (fadd (Fin 50) pnc)])]\<rparr>"
  by (simp add: liquidity_example_defs)












section \<open>The company universe\<close>

lemma ratio_index:
  assumes "bind (pivot col rows) (\<lambda>p. bind (reset_index p) (\<lambda>x. bind (assign x kw)
             (\<lambda>y. select y names))) = Inr w"
  shows "set (index w) = row_key ` set rows"
proof -
  from assms obtain p x y where
    p: "pivot col rows = Inr p" and x: "reset_index p = Inr x" and y: "assign x kw = Inr y"
    and w: "select y names = Inr w"
    unfolding bind_Inr_iff by blast
  have "index w = index p"
    using select_index [OF w] assign_index [OF y] reset_index_Inr [OF x] by simp
  then show ?thesis using pivot_index_set [OF p] by simp
qed

lemma final_rows_load_data:
  "r \<in> set (final_rows accounts (load_data bp dre companies)) \<Longrightarrow> DENOM_CIA r \<in> set companies"
  by (auto simp: final_rows_def load_data_def)

lemma companies_of_ratio:
  "companies_of (bind (pivot col (final_rows accounts (load_data bp dre companies)))
     (\<lambda>p. bind (reset_index p) (\<lambda>x. bind (assign x kw) (\<lambda>y. select y names)))) \<subseteq> set companies"
proof (cases "bind (pivot col (final_rows accounts (load_data bp dre companies)))
     (\<lambda>p. bind (reset_index p) (\<lambda>x. bind (assign x kw) (\<lambda>y. select y names)))")
  case (Inl e)
  then show ?thesis by (simp add: companies_of_def)
next
  case (Inr w)
  from ratio_index [OF Inr] show ?thesis
    unfolding Inr by (auto simp: companies_of_def row_key_def image_image dest: final_rows_load_data)
qed

lemma set_load_companies:
  "set (load_companies info) =
     DENOM_SOCIAL ` {c \<in> set info. SIT c = Some ''ATIVO'' \<and> TP_MERC c = Some ''BOLSA'' \<and>
                                   \<not> isin (SETOR_ATIV c) excluded_sectors}"
  by (auto simp: load_companies_def download_company_info_def)


lemma acme_universe: "load_companies [acme_bank, acme_farm] = [''ACME S.A.'']"
  by (simp add: load_companies_def download_company_info_def acme_bank_def acme_farm_def
        isin_def excluded_sectors_def)

text \<open>
  C9, as stated, fails: the universe is a list of names, so a company whose registry row
  has the sector \<open>Bancos\<close> stays in every output when another registry row of the same
  name passes the filter.
\<close>

theorem shared_name_enters_universe:
  "acme_bank \<in> set [acme_bank, acme_farm] \<and>
   DENOM_SOCIAL acme_bank = ''ACME S.A.'' \<and> SETOR_ATIV acme_bank = Some ''Bancos'' \<and>
   ''ACME S.A.'' \<in>
     companies_of (process_balance_sheet (load_companies [acme_bank, acme_farm]) [] acme_balance)"
proof -
  have "''ACME S.A.'' \<in>
     companies_of (process_balance_sheet (load_companies [acme_bank, acme_farm]) [] acme_balance)"
    unfolding acme_universe acme_balance_sheet
    by (simp add: companies_of_def acme_balance_wide_def)
  moreover have "DENOM_SOCIAL acme_bank = ''ACME S.A.'' \<and> SETOR_ATIV acme_bank = Some ''Bancos''"
    by (simp add: acme_bank_def)
  ultimately show ?thesis by simp
qed

text \<open>
  C9, amended. The company name of every row of the three reshaped tables and of the four
  ratio tables is a member of the company list the run was given, and the list that
  \<open>load_companies\<close> reads holds exactly the names of the registry rows that are active,
  listed on the exchange and outside the excluded sectors. So a company appears in no
  output when no registry row of its name passes the filter.
\<close>

theorem outputs_within_universe:
  "companies_of (process_balance_sheet companies bpa bpp) \<subseteq> set companies \<and>
   companies_of (process_income_statement companies dre) \<subseteq> set companies \<and>
   companies_of (process_cash_flow companies dfc) \<subseteq> set companies \<and>
   companies_of (calculate_liquidity (load_data bp dr companies)) \<subseteq> set companies \<and>
   companies_of (calculate_debt (load_data bp dr companies)) \<subseteq> set companies \<and>
   companies_of (calculate_efficiency (load_data bp dr companies)) \<subseteq> set companies \<and>
   companies_of (calculate_profitability (load_data bp dr companies)) \<subseteq> set companies \<and>
   set (load_companies info) =
     DENOM_SOCIAL ` {c \<in> set info. SIT c = Some ''ATIVO'' \<and> TP_MERC c = Some ''BOLSA'' \<and>
                                   SETOR_ATIV c \<notin> Some ` set excluded_sectors}"
proof (intro conjI)
  show "companies_of (process_balance_sheet companies bpa bpp) \<subseteq> set companies"
  proof (cases "process_balance_sheet companies bpa bpp")
    case (Inl e)
    then show ?thesis by (simp add: companies_of_def)
  next
    case (Inr w)
    from process_balance_sheet_index [OF Inr] show ?thesis
      unfolding Inr by (auto simp: companies_of_def row_key_def image_image)
  qed
  show "companies_of (process_income_statement companies dre) \<subseteq> set companies"
  proof (cases "process_income_statement companies dre")
    case (Inl e)
    then show ?thesis by (simp add: companies_of_def)
  next
    case (Inr w)
    from pivot_index_set [OF process_income_statement_Inr [OF Inr]] show ?thesis
      unfolding Inr by (auto simp: companies_of_def row_key_def image_image)
  qed
  show "companies_of (process_cash_flow companies dfc) \<subseteq> set companies"
  proof (cases "process_cash_flow companies dfc")
    case (Inl e)
    then show ?thesis by (simp add: companies_of_def)
  next
    case (Inr w)
    from pivot_index_set [OF process_cash_flow_Inr [OF Inr]] show ?thesis
      unfolding Inr by (auto simp: companies_of_def row_key_def image_image)
  qed
  show "companies_of (calculate_liquidity (load_data bp dr companies)) \<subseteq> set companies"
    unfolding calculate_liquidity_def by (rule companies_of_ratio)
  show "companies_of (calculate_debt (load_data bp dr companies)) \<subseteq> set companies"
    unfolding calculate_debt_def by (rule companies_of_ratio)
  show "companies_of (calculate_efficiency (load_data bp dr companies)) \<subseteq> set companies"
    unfolding calculate_efficiency_def by (rule companies_of_ratio)
  show "companies_of (calculate_profitability (load_data bp dr companies)) \<subseteq> set companies"
    unfolding calculate_profitability_def by (rule companies_of_ratio)
  show "set (load_companies info) =
     DENOM_SOCIAL ` {c \<in> set info. SIT c = Some ''ATIVO'' \<and> TP_MERC c = Some ''BOLSA'' \<and>
                                   SETOR_ATIV c \<notin> Some ` set excluded_sectors}"
    unfolding set_load_companies by (auto simp: isin_def split: option.splits)
qed


section \<open>The statement loader\<close>

lemma frames_of_present:
  "concat (map (\<lambda>year. case dir (stmt_type, year) of None \<Rightarrow> [] | Some df \<Rightarrow> [df]) years) =
   map (\<lambda>year. the (dir (stmt_type, year))) (filter (\<lambda>year. dir (stmt_type, year) \<noteq> None) years)"
  by (induction years) (auto split: option.splits)

lemma concatenate_loop_other:
  "stmt_type \<notin> set statement_types \<Longrightarrow>
   concatenate_loop dir start_year end_year statement_types result stmt_type = result stmt_type"
  by (induction statement_types arbitrary: result) (auto simp: Let_def)

lemma concatenate_loop_listed:
  "stmt_type \<in> set statement_types \<Longrightarrow>
   concatenate_loop dir start_year end_year statement_types result stmt_type =
     (if frames_of dir start_year end_year stmt_type \<noteq> []
      then Some (concat (frames_of dir start_year end_year stmt_type))
      else result stmt_type)"
proof (induction statement_types arbitrary: result)
  case Nil
  then show ?case by simp
next
  case (Cons a statement_types)
  show ?case
  proof (cases "stmt_type \<in> set statement_types")
    case True
    from Cons.IH [OF True] show ?thesis by (simp add: Let_def)
  next
    case False
    then have "a = stmt_type" using Cons.prems by simp
    then show ?thesis using False by (simp add: Let_def concatenate_loop_other)
  qed
qed

text \<open>
  C6, as stated, fails: for a statement type none of whose files exists in the range the
  loader returns no table at all, the result has no entry under that type.
\<close>

theorem no_file_no_table:
  "concatenate_statements no_files 2016 2025 [''BPA_con''] ''BPA_con'' = None"
  by (simp add: concatenate_statements_def frames_of_def no_files_def)

text \<open>
  C6, amended. For a requested statement type with at least one file in the range of years,
  the result holds under that type the rows of the files that exist, in ascending order of
  the year and in file order within a year; the years without a file contribute nothing
  and raise nothing. A requested type with no file in the range has no entry in the result.
\<close>

theorem concatenate_existing_years:
  assumes "stmt_type \<in> set statement_types"
  shows "concatenate_statements dir start_year end_year statement_types stmt_type =
           (if filter (\<lambda>year. dir (stmt_type, year) \<noteq> None) [start_year..end_year] = []
            then None
            else Some (concat (map (\<lambda>year. the (dir (stmt_type, year)))
                                 (filter (\<lambda>year. dir (stmt_type, year) \<noteq> None)
                                    [start_year..end_year]))))"
proof -
  let ?present = "filter (\<lambda>year. dir (stmt_type, year) \<noteq> None) [start_year..end_year]"
  have f: "frames_of dir start_year end_year stmt_type =
             map (\<lambda>year. the (dir (stmt_type, year))) ?present"
    unfolding frames_of_def by (rule frames_of_present)
  show ?thesis
    unfolding concatenate_statements_def concatenate_loop_listed [OF assms] f by simp
qed

theorem concatenate_existing_years_witness:
  "''BPA_con'' \<in> set [''BPA_con'', ''DRE_con''] \<and>
   concatenate_statements files_2016_2020 2016 2025 [''BPA_con'', ''DRE_con''] ''BPA_con'' =
     Some [2016, 2016, 2017, 2017, 2018, 2018, 2019, 2019, 2020, 2020]"
proof -
  have h: "''BPA_con'' \<in> set [''BPA_con'', ''DRE_con'']" by simp
  have u: "[2016..2025] = [2016, 2017, 2018, 2019, 2020, 2021, 2022, 2023, 2024, 2025 :: int]"
    by (simp add: upto_rec_numeral)
  show ?thesis
    using concatenate_existing_years [OF h, of files_2016_2020 2016 2025] h
    by (simp add: files_2016_2020_def u)
qed

end
